theory Spec2Isabelle
  imports Main "HOL-Library.Word"
begin

unbundle bit_operations_syntax

section \<open>Polled period measurement: the program state\<close>

text \<open>
  The model follows \<^verbatim>\<open>series2/timer/timer_period_measurement_polled/src/main.c\<close>.
  All quantities of the program are \<^verbatim>\<open>uint32_t\<close>: they are 32-bit words, whose
  \<open>+\<close>, \<open>-\<close> and \<open>*\<close> wrap around and whose \<open>div\<close> is the unsigned division.
\<close>

type_synonym u32 = "32 word"

text \<open>
  The registers of TIMER0 that \<^verbatim>\<open>calculatePeriod\<close> touches: the interrupt
  flag register, the top value, and the capture value of each Compare/Capture channel.
\<close>

record TIMER_TypeDef =
  reg_IF :: u32
  reg_TOP :: u32
  reg_CC :: "nat \<Rightarrow> u32"

text \<open>The three file-scope variables of \<^verbatim>\<open>main.c\<close> and the timer peripheral.\<close>

record state =
  measuredPeriod :: u32
  lastCapturedEdge :: u32
  overflowCount :: u32
  TIMER0 :: TIMER_TypeDef

text \<open>The only way a C expression of the function can fault.\<close>

datatype fault = DivideByZero

section \<open>Constants and the timer interface\<close>

text \<open>\<^verbatim>\<open>#define HFPERCLK_IN_MHZ 19\<close>, an \<^verbatim>\<open>int\<close> constant of the C source.\<close>

definition HFPERCLK_IN_MHZ :: int where
  "HFPERCLK_IN_MHZ = 19"

text \<open>
  Modelled from the spec: the enumerator \<^verbatim>\<open>timerPrescale1\<close> is declared in the
  timer library header \<^verbatim>\<open>em_timer.h\<close>, which is not part of the source at hand.
  It selects the prescale divisor 1; the spec's fixed scale of 19 ticks per microsecond,
  that is \<^verbatim>\<open>HFPERCLK_IN_MHZ * (1 << timerPrescale1)\<close>, fixes its value to 0.
\<close>

definition timerPrescale1 :: nat where
  "timerPrescale1 = 0"

text \<open>
  Modelled from the spec: the mask \<^verbatim>\<open>TIMER_IF_OF\<close> is declared in the device
  header \<^verbatim>\<open>em_device.h\<close>, which is not part of the source at hand. The spec speaks
  of one overflow flag of the timer: a single bit of the flag register, here bit 0.
\<close>

definition TIMER_IF_OF :: u32 where
  "TIMER_IF_OF = push_bit 0 1"

text \<open>
  Modelled from the spec: \<^verbatim>\<open>TIMER_CaptureGet\<close> is a function of the timer
  library, not part of the source at hand. The spec has it as a non-destructive read of
  the latest captured counter value of the channel.
\<close>

definition TIMER_CaptureGet :: "TIMER_TypeDef \<Rightarrow> nat \<Rightarrow> u32" where
  "TIMER_CaptureGet timer ch = reg_CC timer ch"

text \<open>
  Modelled from the spec: \<^verbatim>\<open>TIMER_IntGet\<close> is a function of the timer library,
  not part of the source at hand. It reads the pending flags of the timer, among them the
  overflow flag.
\<close>

definition TIMER_IntGet :: "TIMER_TypeDef \<Rightarrow> u32" where
  "TIMER_IntGet timer = reg_IF timer"

text \<open>
  Modelled from the spec: \<^verbatim>\<open>TIMER_IntClear\<close> is a function of the timer
  library, not part of the source at hand. It acknowledges (clears) the given flags and
  leaves every other flag and register of the timer as it is.
\<close>

definition TIMER_IntClear :: "TIMER_TypeDef \<Rightarrow> u32 \<Rightarrow> TIMER_TypeDef" where
  "TIMER_IntClear timer flags = timer\<lparr>reg_IF := reg_IF timer AND NOT flags\<rparr>"

text \<open>
  Modelled from the spec: \<^verbatim>\<open>TIMER_TopGet\<close> is a function of the timer library,
  not part of the source at hand. It reads the counter's top value, the spec's
  \<^verbatim>\<open>counterTop\<close>.
\<close>

definition TIMER_TopGet :: "TIMER_TypeDef \<Rightarrow> u32" where
  "TIMER_TopGet timer = reg_TOP timer"

section \<open>The period calculation\<close>

text \<open>
  The divisor \<^verbatim>\<open>HFPERCLK_IN_MHZ * (1 << timerPrescale1)\<close> is computed on
  \<^verbatim>\<open>int\<close> and converted to \<^verbatim>\<open>uint32_t\<close> for the division.
\<close>

definition periodDivisor :: u32 where
  "periodDivisor = word_of_int (HFPERCLK_IN_MHZ * push_bit timerPrescale1 1)"

text \<open>Unsigned division; a zero divisor is the fault.\<close>

definition div_u32 :: "u32 \<Rightarrow> u32 \<Rightarrow> fault + u32" where
  "div_u32 a b = (if b = 0 then Inl DivideByZero else Inr (a div b))"

text \<open>
  Lines 103 to 106: when the overflow flag is pending, count one overflow and clear the
  flag.
\<close>

definition checkOverflow :: "state \<Rightarrow> state" where
  "checkOverflow s =
     (if TIMER_IntGet (TIMER0 s) AND TIMER_IF_OF \<noteq> 0
      then s\<lparr>overflowCount := overflowCount s + 1,
             TIMER0 := TIMER_IntClear (TIMER0 s) TIMER_IF_OF\<rparr>
      else s)"

text \<open>
  The dividend of lines 110 and 111, the elapsed raw ticks that a call started in \<open>s\<close>
  computes: \<^verbatim>\<open>overflowCount * (TIMER_TopGet(TIMER0) + 2) - lastCapturedEdge + current_edge\<close>,
  after the capture register has been read and the overflow flag checked.
\<close>

definition elapsedTicks :: "state \<Rightarrow> u32" where
  "elapsedTicks s =
     (let current_edge = TIMER_CaptureGet (TIMER0 s) 0;
          s1 = checkOverflow s
      in overflowCount s1 * (TIMER_TopGet (TIMER0 s1) + 2)
           - lastCapturedEdge s1 + current_edge)"

text \<open>
  \<^verbatim>\<open>uint32_t calculatePeriod(void)\<close>: the returned period and the state the call
  leaves, or the fault.
\<close>

definition calculatePeriod :: "state \<Rightarrow> fault + (u32 \<times> state)" where
  "calculatePeriod s =
     (let current_edge = TIMER_CaptureGet (TIMER0 s) 0;
          s1 = checkOverflow s
      in case div_u32 (elapsedTicks s) periodDivisor of
           Inl e \<Rightarrow> Inl e
         | Inr period \<Rightarrow>
             Inr (period, s1\<lparr>lastCapturedEdge := current_edge, overflowCount := 0\<rparr>))"

section \<open>What the spec says the period is\<close>

text \<open>
  The spec's formula, on unbounded integers:
  \<^verbatim>\<open>(w * (counterTop + 2) - p + c) / scale\<close> with the division truncating towards
  zero, for \<open>w\<close> overflows, previous reading \<open>p\<close>, current reading \<open>c\<close> and the scale 19.
\<close>

definition specTicks :: "nat \<Rightarrow> int \<Rightarrow> int \<Rightarrow> int \<Rightarrow> int" where
  "specTicks w counterTop p c = int w * (counterTop + 2) - p + c"

definition truncDiv :: "int \<Rightarrow> int \<Rightarrow> int" where
  "truncDiv a b = sgn a * sgn b * (\<bar>a\<bar> div \<bar>b\<bar>)"

definition specPeriod :: "nat \<Rightarrow> int \<Rightarrow> int \<Rightarrow> int \<Rightarrow> int" where
  "specPeriod w counterTop p c = truncDiv (specTicks w counterTop p c) 19"

section \<open>Concrete states\<close>

text \<open>
  A state given by the timer's flag register, its top value, the capture value of
  channel 0, the stored edge and the overflow count; \<^verbatim>\<open>measuredPeriod\<close> and the
  other capture channels are 0.
\<close>

definition mkState :: "u32 \<Rightarrow> u32 \<Rightarrow> u32 \<Rightarrow> u32 \<Rightarrow> u32 \<Rightarrow> state" where
  "mkState flags counterTop capture lastEdge count =
     \<lparr>measuredPeriod = 0, lastCapturedEdge = lastEdge, overflowCount = count,
      TIMER0 = \<lparr>reg_IF = flags, reg_TOP = counterTop, reg_CC = (\<lambda>_. 0)(0 := capture)\<rparr>\<rparr>"

section \<open>Basic facts\<close>

lemma periodDivisor_eq: "periodDivisor = 19"
  by (simp add: periodDivisor_def HFPERCLK_IN_MHZ_def timerPrescale1_def)

lemma calculatePeriod_eq:
  "calculatePeriod s =
     Inr (elapsedTicks s div 19,
          (checkOverflow s)\<lparr>lastCapturedEdge := TIMER_CaptureGet (TIMER0 s) 0,
                            overflowCount := 0\<rparr>)"
  by (simp add: calculatePeriod_def div_u32_def periodDivisor_eq Let_def)

lemma checkOverflow_top: "TIMER_TopGet (TIMER0 (checkOverflow s)) = TIMER_TopGet (TIMER0 s)"
  by (simp add: checkOverflow_def TIMER_TopGet_def TIMER_IntClear_def)

lemma checkOverflow_last: "lastCapturedEdge (checkOverflow s) = lastCapturedEdge s"
  by (simp add: checkOverflow_def)

lemma elapsedTicks_eq:
  "elapsedTicks s =
     overflowCount (checkOverflow s) * (TIMER_TopGet (TIMER0 s) + 2)
       - lastCapturedEdge s + TIMER_CaptureGet (TIMER0 s) 0"
  by (simp add: elapsedTicks_def Let_def checkOverflow_top checkOverflow_last)


lemmas timer_defs =
  TIMER_IntGet_def TIMER_IF_OF_def TIMER_TopGet_def TIMER_CaptureGet_def TIMER_IntClear_def

lemma checkOverflow_capture:
  "TIMER_CaptureGet (TIMER0 (checkOverflow s)) ch = TIMER_CaptureGet (TIMER0 s) ch"
  by (simp add: checkOverflow_def TIMER_CaptureGet_def TIMER_IntClear_def)

lemma checkOverflow_measured: "measuredPeriod (checkOverflow s) = measuredPeriod s"
  by (simp add: checkOverflow_def)

lemma checkOverflow_clear:
  "TIMER_IntGet (TIMER0 s) AND TIMER_IF_OF = 0 \<Longrightarrow> checkOverflow s = s"
  by (simp add: checkOverflow_def)

lemma checkOverflow_count:
  "overflowCount (checkOverflow s) =
     (if TIMER_IntGet (TIMER0 s) AND TIMER_IF_OF \<noteq> 0
      then overflowCount s + 1 else overflowCount s)"
  by (simp add: checkOverflow_def)

text \<open>The dividend as an integer: the spec's tick count, reduced modulo \<open>2 ^ 32\<close>.\<close>

lemma uint_ticks:
  "uint (of_nat w * (tp + 2) - p + c :: u32) =
     (int w * (uint tp + 2) - uint p + uint c) mod 2 ^ 32"
proof -
  have eq: "(of_nat w * (tp + 2) - p + c :: u32) =
      word_of_int (int w * (uint tp + 2) - uint p + uint c)"
    by simp
  show ?thesis
    unfolding eq uint_word_of_int_eq take_bit_eq_mod by simp
qed

lemma uint_elapsedTicks:
  assumes "overflowCount (checkOverflow s) = of_nat w"
  shows "uint (elapsedTicks s) =
     specTicks w (uint (TIMER_TopGet (TIMER0 s))) (uint (lastCapturedEdge s))
       (uint (TIMER_CaptureGet (TIMER0 s) 0)) mod 2 ^ 32"
  by (simp only: elapsedTicks_eq assms uint_ticks specTicks_def)

lemma truncDiv_nonneg: "0 \<le> a \<Longrightarrow> truncDiv a 19 = a div 19"
  by (cases "a = 0") (simp_all add: truncDiv_def)

text \<open>A difference that wraps once.\<close>

lemma wrapped_difference:
  fixes c p :: int
  assumes "0 \<le> c" and "c < p" and "p < 2 ^ 32"
  shows "(c - p) mod 2 ^ 32 = 2 ^ 32 - (p - c)"
proof -
  have "(c - p) mod 2 ^ 32 = (c - p + 2 ^ 32) mod 2 ^ 32"
    by simp
  also have "\<dots> = c - p + 2 ^ 32"
    using assms by (intro mod_pos_pos_trivial) simp_all
  finally show ?thesis
    by simp
qed

section \<open>Claims\<close>

text \<open>
  Claim C8. The period calculation signals no error: started in any state (any captured
  edge, any flag register, any stored edge and overflow count) it completes and returns
  an unsigned 32-bit period together with the state it leaves.
\<close>

theorem calculatePeriod_no_fault:
  "\<exists>period s'. calculatePeriod s = Inr (period, s')"
  by (simp add: calculatePeriod_eq)

text \<open>
  Claim C1, as amended. Let \<open>w\<close> be the number of overflows counted when the dividend is
  computed (those counted before the call and the one pending in the flag), \<open>p\<close> the
  stored edge and \<open>c\<close> the captured edge. Whenever the integer
  \<open>w * (counterTop + 2) - p + c\<close> is representable in unsigned 32 bits, that is
  non-negative and below \<open>2 ^ 32\<close>, the call returns this integer divided by 19,
  truncated.
\<close>

theorem calculatePeriod_formula:
  assumes "overflowCount (checkOverflow s) = of_nat w"
    and "0 \<le> specTicks w (uint (TIMER_TopGet (TIMER0 s))) (uint (lastCapturedEdge s))
               (uint (TIMER_CaptureGet (TIMER0 s) 0))"
    and "specTicks w (uint (TIMER_TopGet (TIMER0 s))) (uint (lastCapturedEdge s))
           (uint (TIMER_CaptureGet (TIMER0 s) 0)) < 2 ^ 32"
  shows "\<exists>period s'. calculatePeriod s = Inr (period, s') \<and>
     uint period =
       specPeriod w (uint (TIMER_TopGet (TIMER0 s))) (uint (lastCapturedEdge s))
         (uint (TIMER_CaptureGet (TIMER0 s) 0))"
proof -
  let ?t = "specTicks w (uint (TIMER_TopGet (TIMER0 s))) (uint (lastCapturedEdge s))
              (uint (TIMER_CaptureGet (TIMER0 s) 0))"
  have "uint (elapsedTicks s) = ?t mod 2 ^ 32"
    using assms(1) by (rule uint_elapsedTicks)
  also have "\<dots> = ?t"
    using assms(2,3) by simp
  finally have "uint (elapsedTicks s div 19) = ?t div 19"
    by (simp add: uint_div)
  then show ?thesis
    using assms(2) by (simp add: calculatePeriod_eq specPeriod_def truncDiv_nonneg)
qed

text \<open>
  Three overflows (two counted, one pending), top 999, from 950 to 50: 2103 ticks,
  110 microseconds.
\<close>

theorem calculatePeriod_formula_witness:
  "overflowCount (checkOverflow (mkState 1 999 50 950 2)) = of_nat 3 \<and>
   0 \<le> specTicks 3 999 950 50 \<and> specTicks 3 999 950 50 < 2 ^ 32 \<and>
   specPeriod 3 999 950 50 = 110 \<and>
   (\<exists>s'. calculatePeriod (mkState 1 999 50 950 2) = Inr (110, s'))"
  using calculatePeriod_formula [of "mkState 1 999 50 950 2" 3]
  by (simp add: calculatePeriod_eq elapsedTicks_eq checkOverflow_def mkState_def timer_defs
      specTicks_def specPeriod_def truncDiv_def)

text \<open>
  Claim C1 as stated fails: with no overflow, top 999, stored edge 950 and captured edge
  50 (both within the top) the spec's formula gives \<open>-900 / 19 = -47\<close>, while the call
  returns 226050862, the wrapped dividend \<open>2 ^ 32 - 900\<close> divided by 19.
\<close>

theorem calculatePeriod_formula_counterexample:
  "overflowCount (checkOverflow (mkState 0 999 50 950 0)) = of_nat 0 \<and>
   uint (lastCapturedEdge (mkState 0 999 50 950 0))
     \<le> uint (TIMER_TopGet (TIMER0 (mkState 0 999 50 950 0))) \<and>
   uint (TIMER_CaptureGet (TIMER0 (mkState 0 999 50 950 0)) 0)
     \<le> uint (TIMER_TopGet (TIMER0 (mkState 0 999 50 950 0))) \<and>
   calculatePeriod (mkState 0 999 50 950 0) = Inr (226050862, mkState 0 999 50 50 0) \<and>
   specPeriod 0 999 950 50 = - 47 \<and>
   uint (226050862 :: u32) \<noteq> specPeriod 0 999 950 50"
  by (simp add: calculatePeriod_eq elapsedTicks_eq checkOverflow_def mkState_def timer_defs
      specTicks_def specPeriod_def truncDiv_def)

text \<open>
  Claim C2. With top 999 and the scale 19, a call for which one overflow is counted, with
  stored edge 950 and captured edge 50, computes 101 raw ticks and returns 5.
\<close>

theorem calculatePeriod_scenario2:
  assumes "TIMER_TopGet (TIMER0 s) = 999"
    and "overflowCount (checkOverflow s) = 1"
    and "lastCapturedEdge s = 950"
    and "TIMER_CaptureGet (TIMER0 s) 0 = 50"
  shows "periodDivisor = 19 \<and> elapsedTicks s = 101 \<and>
         (\<exists>s'. calculatePeriod s = Inr (5, s'))"
proof -
  have "elapsedTicks s = 101"
    by (simp add: elapsedTicks_eq assms)
  then show ?thesis
    by (simp add: calculatePeriod_eq periodDivisor_eq)
qed

theorem calculatePeriod_scenario2_witness:
  "TIMER_TopGet (TIMER0 (mkState 1 999 50 950 0)) = 999 \<and>
   overflowCount (checkOverflow (mkState 1 999 50 950 0)) = 1 \<and>
   lastCapturedEdge (mkState 1 999 50 950 0) = 950 \<and>
   TIMER_CaptureGet (TIMER0 (mkState 1 999 50 950 0)) 0 = 50 \<and>
   elapsedTicks (mkState 1 999 50 950 0) = 101 \<and>
   (\<exists>s'. calculatePeriod (mkState 1 999 50 950 0) = Inr (5, s'))"
  using calculatePeriod_scenario2 [of "mkState 1 999 50 950 0"]
  by (simp add: checkOverflow_def mkState_def timer_defs)

text \<open>
  Claim C3, as amended. Every call leaves \<^verbatim>\<open>lastCapturedEdge\<close> equal to the captured
  edge and \<^verbatim>\<open>overflowCount\<close> equal to 0, and leaves \<^verbatim>\<open>measuredPeriod\<close> as it was.
  Its one further effect is on the timer: when the overflow flag was pending it is
  cleared; the other flags, the top value and the capture registers stay as they were.
\<close>

theorem calculatePeriod_effects:
  "\<exists>period. calculatePeriod s =
     Inr (period,
          s\<lparr>lastCapturedEdge := TIMER_CaptureGet (TIMER0 s) 0,
            overflowCount := 0,
            TIMER0 := if TIMER_IntGet (TIMER0 s) AND TIMER_IF_OF \<noteq> 0
                      then (TIMER0 s)\<lparr>reg_IF := reg_IF (TIMER0 s) AND NOT TIMER_IF_OF\<rparr>
                      else TIMER0 s\<rparr>)"
  by (simp add: calculatePeriod_eq checkOverflow_def TIMER_IntClear_def)

text \<open>
  Claim C3 as stated fails: started with the overflow flag pending, the call also clears
  that flag, so the state it leaves is not the start state with only the two fields
  updated.
\<close>

theorem calculatePeriod_effects_counterexample:
  "calculatePeriod (mkState 1 999 50 950 0) = Inr (5, mkState 0 999 50 50 0) \<and>
   TIMER_IntGet (TIMER0 (mkState 1 999 50 950 0)) = 1 \<and>
   TIMER_IntGet (TIMER0 (mkState 0 999 50 50 0)) = 0 \<and>
   mkState 0 999 50 50 0
     \<noteq> (mkState 1 999 50 950 0)\<lparr>lastCapturedEdge := 50, overflowCount := 0\<rparr>"
  by (simp add: calculatePeriod_eq elapsedTicks_eq checkOverflow_def mkState_def timer_defs)

text \<open>
  Claim C4. After a call that captured edge \<open>c\<close>, a second call that finds the same
  captured edge and no overflow flag pending returns the period 0, whatever the first
  state was.
\<close>

theorem calculatePeriod_repeat:
  assumes "calculatePeriod s = Inr (period1, s1)"
    and "TIMER_IntGet timer AND TIMER_IF_OF = 0"
    and "TIMER_CaptureGet timer 0 = TIMER_CaptureGet (TIMER0 s) 0"
  shows "\<exists>s2. calculatePeriod (s1\<lparr>TIMER0 := timer\<rparr>) = Inr (0, s2)"
proof -
  let ?c = "TIMER_CaptureGet (TIMER0 s) 0"
  let ?s1' = "s1\<lparr>TIMER0 := timer\<rparr>"
  from assms(1) have s1: "s1 = (checkOverflow s)\<lparr>lastCapturedEdge := ?c, overflowCount := 0\<rparr>"
    by (simp add: calculatePeriod_eq)
  have clear: "checkOverflow ?s1' = ?s1'"
    using assms(2) by (simp add: checkOverflow_clear)
  have "elapsedTicks ?s1' =
      overflowCount ?s1' * (TIMER_TopGet timer + 2) - lastCapturedEdge ?s1'
        + TIMER_CaptureGet timer 0"
    by (simp add: elapsedTicks_eq clear)
  also have "\<dots> = 0"
    by (simp add: s1 assms(3))
  finally show ?thesis
    by (simp add: calculatePeriod_eq)
qed

text \<open>The second call directly on the state the first call leaves.\<close>

theorem calculatePeriod_repeat_witness:
  "calculatePeriod (mkState 1 999 50 950 0) = Inr (5, mkState 0 999 50 50 0) \<and>
   TIMER_IntGet (TIMER0 (mkState 0 999 50 50 0)) AND TIMER_IF_OF = 0 \<and>
   TIMER_CaptureGet (TIMER0 (mkState 0 999 50 50 0)) 0
     = TIMER_CaptureGet (TIMER0 (mkState 1 999 50 950 0)) 0 \<and>
   (\<exists>s2. calculatePeriod (mkState 0 999 50 50 0) = Inr (0, s2))"
proof -
  have first: "calculatePeriod (mkState 1 999 50 950 0) = Inr (5, mkState 0 999 50 50 0)"
    by (simp add: calculatePeriod_eq elapsedTicks_eq checkOverflow_def mkState_def timer_defs)
  have flag: "TIMER_IntGet (TIMER0 (mkState 0 999 50 50 0)) AND TIMER_IF_OF = 0"
    by (simp add: mkState_def timer_defs)
  have capture: "TIMER_CaptureGet (TIMER0 (mkState 0 999 50 50 0)) 0
      = TIMER_CaptureGet (TIMER0 (mkState 1 999 50 950 0)) 0"
    by (simp add: mkState_def timer_defs)
  have same: "(mkState 0 999 50 50 0)\<lparr>TIMER0 := TIMER0 (mkState 0 999 50 50 0)\<rparr>
      = mkState 0 999 50 50 0"
    by simp
  from calculatePeriod_repeat [OF first flag capture]
  have "\<exists>s2. calculatePeriod (mkState 0 999 50 50 0) = Inr (0, s2)"
    unfolding same .
  with first flag capture show ?thesis
    by blast
qed

text \<open>
  Claim C5, as amended. Take a first call with \<open>w1\<close> overflows counted, from stored
  edge \<open>p\<close> to captured edge \<open>m\<close>, and a second call on the state the first one leaves,
  with \<open>w2\<close> overflows counted and captured edge \<open>c\<close>; compare them with a single call
  with \<open>w1 + w2\<close> overflows counted, from stored edge \<open>p\<close> to captured edge \<open>c\<close>, for the
  same top value. Each call returns its raw ticks divided by 19. The raw ticks of the two
  calls add up to the raw ticks of the single call modulo \<open>2 ^ 32\<close>. They add up
  to it as integers, and both equal \<open>(w1 + w2) * (counterTop + 2) - p + c\<close>, whenever
  neither \<open>w1 * (counterTop + 2) - p + m\<close> nor \<open>w2 * (counterTop + 2) - m + c\<close> is negative
  and their sum is below \<open>2 ^ 32\<close>.
\<close>

theorem elapsedTicks_accumulate:
  assumes "calculatePeriod s = Inr (period1, s1)"
    and "overflowCount (checkOverflow s) = of_nat w1"
    and "lastCapturedEdge s2 = lastCapturedEdge s1"
    and "overflowCount (checkOverflow s2) = of_nat w2"
    and "TIMER_TopGet (TIMER0 s2) = TIMER_TopGet (TIMER0 s)"
    and "lastCapturedEdge single = lastCapturedEdge s"
    and "overflowCount (checkOverflow single) = of_nat (w1 + w2)"
    and "TIMER_TopGet (TIMER0 single) = TIMER_TopGet (TIMER0 s)"
    and "TIMER_CaptureGet (TIMER0 single) 0 = TIMER_CaptureGet (TIMER0 s2) 0"
  shows "period1 = elapsedTicks s div 19 \<and>
     (\<exists>s'. calculatePeriod s2 = Inr (elapsedTicks s2 div 19, s')) \<and>
     (\<exists>s'. calculatePeriod single = Inr (elapsedTicks single div 19, s')) \<and>
     elapsedTicks s + elapsedTicks s2 = elapsedTicks single \<and>
     (uint (elapsedTicks s) + uint (elapsedTicks s2)) mod 2 ^ 32 = uint (elapsedTicks single) \<and>
     (0 \<le> specTicks w1 (uint (TIMER_TopGet (TIMER0 s))) (uint (lastCapturedEdge s))
              (uint (TIMER_CaptureGet (TIMER0 s) 0)) \<and>
      0 \<le> specTicks w2 (uint (TIMER_TopGet (TIMER0 s))) (uint (TIMER_CaptureGet (TIMER0 s) 0))
              (uint (TIMER_CaptureGet (TIMER0 s2) 0)) \<and>
      specTicks w1 (uint (TIMER_TopGet (TIMER0 s))) (uint (lastCapturedEdge s))
          (uint (TIMER_CaptureGet (TIMER0 s) 0))
        + specTicks w2 (uint (TIMER_TopGet (TIMER0 s))) (uint (TIMER_CaptureGet (TIMER0 s) 0))
            (uint (TIMER_CaptureGet (TIMER0 s2) 0)) < 2 ^ 32
      \<longrightarrow> uint (elapsedTicks s) + uint (elapsedTicks s2) = uint (elapsedTicks single) \<and>
          uint (elapsedTicks single) =
            specTicks (w1 + w2) (uint (TIMER_TopGet (TIMER0 s))) (uint (lastCapturedEdge s))
              (uint (TIMER_CaptureGet (TIMER0 s2) 0)))"
proof -
  let ?T = "uint (TIMER_TopGet (TIMER0 s))"
  let ?p = "uint (lastCapturedEdge s)"
  let ?m = "uint (TIMER_CaptureGet (TIMER0 s) 0)"
  let ?c = "uint (TIMER_CaptureGet (TIMER0 s2) 0)"
  let ?A = "specTicks w1 ?T ?p ?m"
  let ?B = "specTicks w2 ?T ?m ?c"
  let ?C = "specTicks (w1 + w2) ?T ?p ?c"
  from assms(1) have first: "period1 = elapsedTicks s div 19"
    and "lastCapturedEdge s1 = TIMER_CaptureGet (TIMER0 s) 0"
    by (auto simp add: calculatePeriod_eq)
  with assms(3) have mid: "lastCapturedEdge s2 = TIMER_CaptureGet (TIMER0 s) 0"
    by simp
  have calls: "\<exists>s'. calculatePeriod s2 = Inr (elapsedTicks s2 div 19, s')"
    "\<exists>s'. calculatePeriod single = Inr (elapsedTicks single div 19, s')"
    by (simp_all add: calculatePeriod_eq)
  have words: "elapsedTicks s + elapsedTicks s2 = elapsedTicks single"
    by (simp add: elapsedTicks_eq assms(2,4-9) mid algebra_simps)
  have modular: "(uint (elapsedTicks s) + uint (elapsedTicks s2)) mod 2 ^ 32
      = uint (elapsedTicks single)"
    unfolding words [symmetric] by (simp add: uint_word_ariths)
  have t1: "uint (elapsedTicks s) = ?A mod 2 ^ 32"
    using assms(2) by (rule uint_elapsedTicks)
  have t2: "uint (elapsedTicks s2) = ?B mod 2 ^ 32"
    using uint_elapsedTicks [OF assms(4)] by (simp only: assms(5) mid)
  have t3: "uint (elapsedTicks single) = ?C mod 2 ^ 32"
    using uint_elapsedTicks [OF assms(7)] by (simp only: assms(6,8,9))
  have sum: "?C = ?A + ?B"
    by (simp add: specTicks_def algebra_simps)
  have exact: "uint (elapsedTicks s) + uint (elapsedTicks s2) = uint (elapsedTicks single) \<and>
      uint (elapsedTicks single) = ?C"
    if "0 \<le> ?A" and "0 \<le> ?B" and "?A + ?B < 2 ^ 32"
  proof -
    from that have "?A mod 2 ^ 32 = ?A" and "?B mod 2 ^ 32 = ?B"
      and "(?A + ?B) mod 2 ^ 32 = ?A + ?B"
      by simp_all
    then show ?thesis
      by (simp only: t1 t2 t3 sum)
  qed
  from first calls words modular exact show ?thesis
    by blast
qed

text \<open>
  First call: one overflow, 950 to 50 (101 ticks, period 5); second call: two overflows,
  50 to 20 (1972 ticks, period 103); single call: three overflows, 950 to 20 (2073 ticks,
  period 109).
\<close>

theorem elapsedTicks_accumulate_witness:
  "calculatePeriod (mkState 1 999 50 950 0) = Inr (5, mkState 0 999 50 50 0) \<and>
   overflowCount (checkOverflow (mkState 1 999 50 950 0)) = of_nat 1 \<and>
   lastCapturedEdge (mkState 1 999 20 50 1) = lastCapturedEdge (mkState 0 999 50 50 0) \<and>
   overflowCount (checkOverflow (mkState 1 999 20 50 1)) = of_nat 2 \<and>
   overflowCount (checkOverflow (mkState 1 999 20 950 2)) = of_nat (1 + 2) \<and>
   0 \<le> specTicks 1 999 950 50 \<and> 0 \<le> specTicks 2 999 50 20 \<and>
   specTicks 1 999 950 50 + specTicks 2 999 50 20 < 2 ^ 32 \<and>
   (\<exists>s'. calculatePeriod (mkState 1 999 20 50 1) = Inr (103, s')) \<and>
   (\<exists>s'. calculatePeriod (mkState 1 999 20 950 2) = Inr (109, s')) \<and>
   uint (elapsedTicks (mkState 1 999 50 950 0)) = 101 \<and>
   uint (elapsedTicks (mkState 1 999 20 50 1)) = 1972 \<and>
   uint (elapsedTicks (mkState 1 999 20 950 2)) = 2073 \<and>
   uint (elapsedTicks (mkState 1 999 50 950 0)) + uint (elapsedTicks (mkState 1 999 20 50 1))
     = uint (elapsedTicks (mkState 1 999 20 950 2)) \<and>
   uint (elapsedTicks (mkState 1 999 20 950 2)) = specTicks (1 + 2) 999 950 20"
  using elapsedTicks_accumulate [of "mkState 1 999 50 950 0" 5 "mkState 0 999 50 50 0" 1
      "mkState 1 999 20 50 1" 2 "mkState 1 999 20 950 2"]
  by (simp add: calculatePeriod_eq elapsedTicks_eq checkOverflow_def mkState_def timer_defs
      specTicks_def)

text \<open>
  Claim C5 as stated fails on integers: with top 999 and all readings within it, a first
  call with no overflow from 950 to 50 computes \<open>2 ^ 32 - 900\<close> ticks, a second call
  with one overflow from 50 to 960 computes 1911 ticks, and the single call with one
  overflow from 950 to 960 computes 1011 ticks: the totals differ by \<open>2 ^ 32\<close>.
\<close>

theorem elapsedTicks_accumulate_counterexample:
  "calculatePeriod (mkState 0 999 50 950 0) = Inr (226050862, mkState 0 999 50 50 0) \<and>
   overflowCount (checkOverflow (mkState 0 999 50 950 0)) = of_nat 0 \<and>
   lastCapturedEdge (mkState 1 999 960 50 0) = lastCapturedEdge (mkState 0 999 50 50 0) \<and>
   overflowCount (checkOverflow (mkState 1 999 960 50 0)) = of_nat 1 \<and>
   lastCapturedEdge (mkState 1 999 960 950 0) = lastCapturedEdge (mkState 0 999 50 950 0) \<and>
   overflowCount (checkOverflow (mkState 1 999 960 950 0)) = of_nat (0 + 1) \<and>
   TIMER_CaptureGet (TIMER0 (mkState 1 999 960 950 0)) 0
     = TIMER_CaptureGet (TIMER0 (mkState 1 999 960 50 0)) 0 \<and>
   uint (elapsedTicks (mkState 0 999 50 950 0)) = 4294966396 \<and>
   uint (elapsedTicks (mkState 1 999 960 50 0)) = 1911 \<and>
   uint (elapsedTicks (mkState 1 999 960 950 0)) = 1011 \<and>
   uint (elapsedTicks (mkState 0 999 50 950 0)) + uint (elapsedTicks (mkState 1 999 960 50 0))
     \<noteq> uint (elapsedTicks (mkState 1 999 960 950 0))"
  by (simp add: calculatePeriod_eq elapsedTicks_eq checkOverflow_def mkState_def timer_defs)

text \<open>
  Claim C6. For every top value: a call with the captured edge equal to the top value,
  the stored edge 0, no overflow counted and no overflow flag pending computes exactly
  top-value raw ticks.
\<close>

theorem elapsedTicks_at_top:
  assumes "TIMER_CaptureGet (TIMER0 s) 0 = TIMER_TopGet (TIMER0 s)"
    and "lastCapturedEdge s = 0"
    and "overflowCount s = 0"
    and "TIMER_IntGet (TIMER0 s) AND TIMER_IF_OF = 0"
  shows "elapsedTicks s = TIMER_TopGet (TIMER0 s) \<and>
         (\<exists>s'. calculatePeriod s = Inr (TIMER_TopGet (TIMER0 s) div 19, s'))"
proof -
  have "elapsedTicks s = TIMER_TopGet (TIMER0 s)"
    by (simp add: elapsedTicks_eq checkOverflow_clear assms)
  then show ?thesis
    by (simp add: calculatePeriod_eq)
qed

theorem elapsedTicks_at_top_witness:
  "TIMER_CaptureGet (TIMER0 (mkState 0 999 999 0 0)) 0
     = TIMER_TopGet (TIMER0 (mkState 0 999 999 0 0)) \<and>
   lastCapturedEdge (mkState 0 999 999 0 0) = 0 \<and>
   overflowCount (mkState 0 999 999 0 0) = 0 \<and>
   TIMER_IntGet (TIMER0 (mkState 0 999 999 0 0)) AND TIMER_IF_OF = 0 \<and>
   elapsedTicks (mkState 0 999 999 0 0) = 999 \<and>
   (\<exists>s'. calculatePeriod (mkState 0 999 999 0 0) = Inr (52, s'))"
  using elapsedTicks_at_top [of "mkState 0 999 999 0 0"]
  by (simp add: mkState_def timer_defs)

text \<open>
  Claim C7. With top 999, the scale 19, stored edge 0, captured edge 19000, no overflow
  counted and no overflow flag pending, the call computes 19000 raw ticks and returns
  1000.
\<close>

theorem calculatePeriod_scenario1:
  assumes "TIMER_TopGet (TIMER0 s) = 999"
    and "lastCapturedEdge s = 0"
    and "TIMER_CaptureGet (TIMER0 s) 0 = 19000"
    and "overflowCount s = 0"
    and "TIMER_IntGet (TIMER0 s) AND TIMER_IF_OF = 0"
  shows "periodDivisor = 19 \<and> elapsedTicks s = 19000 \<and>
         (\<exists>s'. calculatePeriod s = Inr (1000, s'))"
proof -
  have "elapsedTicks s = 19000"
    by (simp add: elapsedTicks_eq checkOverflow_clear assms)
  then show ?thesis
    by (simp add: calculatePeriod_eq periodDivisor_eq)
qed

theorem calculatePeriod_scenario1_witness:
  "TIMER_TopGet (TIMER0 (mkState 0 999 19000 0 0)) = 999 \<and>
   lastCapturedEdge (mkState 0 999 19000 0 0) = 0 \<and>
   TIMER_CaptureGet (TIMER0 (mkState 0 999 19000 0 0)) 0 = 19000 \<and>
   overflowCount (mkState 0 999 19000 0 0) = 0 \<and>
   TIMER_IntGet (TIMER0 (mkState 0 999 19000 0 0)) AND TIMER_IF_OF = 0 \<and>
   elapsedTicks (mkState 0 999 19000 0 0) = 19000 \<and>
   (\<exists>s'. calculatePeriod (mkState 0 999 19000 0 0) = Inr (1000, s'))"
  using calculatePeriod_scenario1 [of "mkState 0 999 19000 0 0"]
  by (simp add: mkState_def timer_defs)

text \<open>
  Claim C9. The arithmetic is unsigned and 32 bits wide: with no overflow counted, no
  overflow flag pending and the captured edge below the stored edge, the subtraction
  wraps. The dividend is \<open>2 ^ 32\<close> minus the distance of the two edges, and the call
  returns it divided by 19 as an unsigned value: no negative number and no fault. For a
  small distance this is a very large period.
\<close>

theorem calculatePeriod_wraps:
  assumes "overflowCount s = 0"
    and "TIMER_IntGet (TIMER0 s) AND TIMER_IF_OF = 0"
    and "TIMER_CaptureGet (TIMER0 s) 0 < lastCapturedEdge s"
  shows "\<exists>period s'. calculatePeriod s = Inr (period, s') \<and>
     uint period =
       (2 ^ 32 - (uint (lastCapturedEdge s) - uint (TIMER_CaptureGet (TIMER0 s) 0))) div 19"
proof -
  let ?p = "uint (lastCapturedEdge s)" and ?c = "uint (TIMER_CaptureGet (TIMER0 s) 0)"
  have count: "overflowCount (checkOverflow s) = of_nat 0"
    using assms(1,2) by (simp add: checkOverflow_clear)
  have lt: "?c < ?p"
    using assms(3) by (simp add: word_less_def)
  have c0: "0 \<le> ?c"
    by simp
  have p32: "?p < 2 ^ 32"
    using uint_lt2p [of "lastCapturedEdge s"] by simp
  have "uint (elapsedTicks s) = (?c - ?p) mod 2 ^ 32"
    using uint_elapsedTicks [OF count] by (simp add: specTicks_def)
  also have "\<dots> = 2 ^ 32 - (?p - ?c)"
    using c0 lt p32 by (rule wrapped_difference)
  finally have "uint (elapsedTicks s div 19) = (2 ^ 32 - (?p - ?c)) div 19"
    by (simp add: uint_div)
  then show ?thesis
    by (simp add: calculatePeriod_eq)
qed

text \<open>Stored edge 1, captured edge 0: the call returns 226050910.\<close>

theorem calculatePeriod_wraps_witness:
  "overflowCount (mkState 0 999 0 1 0) = 0 \<and>
   TIMER_IntGet (TIMER0 (mkState 0 999 0 1 0)) AND TIMER_IF_OF = 0 \<and>
   TIMER_CaptureGet (TIMER0 (mkState 0 999 0 1 0)) 0 < lastCapturedEdge (mkState 0 999 0 1 0) \<and>
   elapsedTicks (mkState 0 999 0 1 0) = 4294967295 \<and>
   (\<exists>s'. calculatePeriod (mkState 0 999 0 1 0) = Inr (226050910, s'))"
  using calculatePeriod_wraps [of "mkState 0 999 0 1 0"]
  by (simp add: calculatePeriod_eq elapsedTicks_eq checkOverflow_def mkState_def timer_defs)

text \<open>
  Claim C10. One invocation of the period calculation increments
  \<^verbatim>\<open>overflowCount\<close> at most once: the call returns the period computed from the
  count it found plus one when the overflow flag is pending at the call, and from the
  count it found otherwise. However many wraps elapsed since the last invocation, they
  enter the returned period as at most one increment; the call leaves the count at 0.
\<close>

theorem calculatePeriod_increment:
  "calculatePeriod s =
     Inr (((if TIMER_IntGet (TIMER0 s) AND TIMER_IF_OF \<noteq> 0
            then overflowCount s + 1 else overflowCount s) * (TIMER_TopGet (TIMER0 s) + 2)
             - lastCapturedEdge s + TIMER_CaptureGet (TIMER0 s) 0) div 19,
          (if TIMER_IntGet (TIMER0 s) AND TIMER_IF_OF \<noteq> 0
           then s\<lparr>TIMER0 := TIMER_IntClear (TIMER0 s) TIMER_IF_OF\<rparr> else s)
            \<lparr>lastCapturedEdge := TIMER_CaptureGet (TIMER0 s) 0, overflowCount := 0\<rparr>) \<and>
   (overflowCount (checkOverflow s) = overflowCount s + 1)
     = (TIMER_IntGet (TIMER0 s) AND TIMER_IF_OF \<noteq> 0) \<and>
   (overflowCount (checkOverflow s) = overflowCount s)
     = (TIMER_IntGet (TIMER0 s) AND TIMER_IF_OF = 0)"
  by (simp add: calculatePeriod_eq elapsedTicks_eq checkOverflow_def)

text \<open>
  With top 999, stored edge 950, captured edge 50 and one overflow already counted: the
  call with the flag pending returns \<open>(2 * 1001 - 900) div 19 = 58\<close>, the call with the
  flag clear returns \<open>(1 * 1001 - 900) div 19 = 5\<close>.
\<close>

theorem calculatePeriod_increment_witness:
  "TIMER_IntGet (TIMER0 (mkState 1 999 50 950 1)) AND TIMER_IF_OF \<noteq> 0 \<and>
   calculatePeriod (mkState 1 999 50 950 1) = Inr (58, mkState 0 999 50 50 0) \<and>
   TIMER_IntGet (TIMER0 (mkState 0 999 50 950 1)) AND TIMER_IF_OF = 0 \<and>
   calculatePeriod (mkState 0 999 50 950 1) = Inr (5, mkState 0 999 50 50 0)"
  using calculatePeriod_increment [of "mkState 1 999 50 950 1"]
    calculatePeriod_increment [of "mkState 0 999 50 950 1"]
  by (simp add: mkState_def timer_defs)

end
